theory Spec2Isabelle
  imports Complex_Main
begin

section \<open>Cells and tables\<close>

text \<open>
  The program (\<^verbatim>\<open>app.py\<close>) is a chain of pandas column operations over one table.
  A table is modelled as the list of its rows, a row as a record with one field per
  column, and a vectorised column assignment as the same assignment on every row.

  Numeric cells are modelled as exact reals: the rounding of 64-bit floats, overflow
  and signed zeros are outside the model, and so are missing cells (every cell of the
  input table holds a value). The one place where the program leaves the finite
  numbers is a division by a zero cell; numpy performs it without raising, so a
  quotient column holds values of the type \<open>fval\<close> below.
\<close>

datatype fval = Finite real | PosInf | NegInf | NaN

text \<open>
  Division of one float column by another (\<^verbatim>\<open>a / b\<close> on Series): no exception is
  raised for a zero divisor; the quotient is \<^verbatim>\<open>nan\<close> for \<^verbatim>\<open>0 / 0\<close> and an infinity
  with the sign of the dividend otherwise.
\<close>

definition np_divide :: "real \<Rightarrow> real \<Rightarrow> fval" where
  "np_divide a b =
     (if b = 0 then (if a = 0 then NaN else if 0 < a then PosInf else NegInf)
      else Finite (a / b))"

fun is_finite :: "fval \<Rightarrow> bool" where
  "is_finite (Finite x) = True"
| "is_finite PosInf = False"
| "is_finite NegInf = False"
| "is_finite NaN = False"

text \<open>The comparison \<^verbatim>\<open><\<close> of floats: false whenever a \<^verbatim>\<open>nan\<close> is involved.\<close>

fun fval_less :: "fval \<Rightarrow> fval \<Rightarrow> bool" where
  "fval_less (Finite a) (Finite b) = (a < b)"
| "fval_less (Finite a) PosInf = True"
| "fval_less NegInf (Finite b) = True"
| "fval_less NegInf PosInf = True"
| "fval_less (Finite a) NegInf = False"
| "fval_less (Finite a) NaN = False"
| "fval_less PosInf y = False"
| "fval_less NegInf NegInf = False"
| "fval_less NegInf NaN = False"
| "fval_less NaN y = False"

text \<open>
  The comparison \<^verbatim>\<open><=\<close> of floats. Two quotients are compared with it where
  rounding matters: a 64-bit quotient is the exact one rounded, rounding keeps the
  order of two numbers but can make them equal, so the weak order of two exact
  quotients is also the order of the rounded ones.
\<close>

fun fval_le :: "fval \<Rightarrow> fval \<Rightarrow> bool" where
  "fval_le (Finite a) (Finite b) = (a \<le> b)"
| "fval_le (Finite a) PosInf = True"
| "fval_le NegInf (Finite b) = True"
| "fval_le NegInf PosInf = True"
| "fval_le PosInf PosInf = True"
| "fval_le NegInf NegInf = True"
| "fval_le (Finite a) NegInf = False"
| "fval_le (Finite a) NaN = False"
| "fval_le PosInf (Finite b) = False"
| "fval_le PosInf NegInf = False"
| "fval_le PosInf NaN = False"
| "fval_le NegInf NaN = False"
| "fval_le NaN y = False"

text \<open>The mean of a column of a group: pandas divides the sum by the count.\<close>

definition mean :: "real list \<Rightarrow> real" where
  "mean xs = sum_list xs / real (length xs)"

section \<open>The tables of the program\<close>

text \<open>
  Several tables share column names. A field name written without a qualifier refers
  to the Route Summary (and its copies \<open>sim\<close> and \<open>roi_df\<close>); the columns of the input
  table and of the two returned selections are written with the record's name.
\<close>

text \<open>The columns returned by \<^verbatim>\<open>simulate_scenario\<close> (line 59).\<close>

record 'k scenario_result =
  collection_route :: 'k
  adjusted_waste_kg_per_day :: real
  new_recycling_rate :: real
  total_operational_cost :: real
  cost_per_kg_waste :: fval

text \<open>The columns returned by \<^verbatim>\<open>calculate_smart_bin_roi\<close> (line 65).\<close>

record 'k roi_result =
  collection_route :: 'k
  total_operational_cost :: real
  expected_annual_savings :: real
  roi_years :: fval

text \<open>A row of the input file, one per household.\<close>

record 'k household =
  household_id :: nat
  collection_route :: 'k
  population :: int
  waste_gen_kg_per_day :: real
  recycling_rate :: real
  route_length_km :: real
  route_time_hr :: real

text \<open>The result of \<^verbatim>\<open>groupby("collection_route").agg(...).reset_index()\<close> (lines 26-35).\<close>

record 'k route_agg =
  collection_route :: 'k
  total_households :: nat
  total_population :: int
  avg_waste_kg_per_day :: real
  avg_recycling_rate :: real
  avg_route_length_km :: real
  avg_route_time_hr :: real
  total_distance_km :: real
  total_time_hr :: real

text \<open>The Route Summary: the aggregated columns and the ones derived in lines 37-47.\<close>

record 'k route_summary = "'k route_agg" +
  fuel_cost_per_km :: real
  labor_cost_per_hour :: real
  maintenance_cost_per_km :: real
  total_fuel_cost :: real
  total_labor_cost :: real
  total_maintenance_cost :: real
  total_operational_cost :: real
  total_waste_kg_per_day :: real
  cost_per_kg_waste :: fval

text \<open>The frame \<open>sim\<close>: a copy of the Route Summary with two more columns.\<close>

record 'k sim_row = "'k route_summary" +
  new_recycling_rate :: real
  adjusted_waste_kg_per_day :: real

text \<open>The frame \<open>roi_df\<close>: a copy of the Route Summary with two more columns.\<close>

record 'k roi_row = "'k route_summary" +
  expected_annual_savings :: real
  roi_years :: fval

section \<open>Route Aggregator: \<open>summarize_routes\<close>\<close>

text \<open>
  \<^verbatim>\<open>df.groupby("collection_route")\<close>: one group per distinct key, the groups in
  ascending key order, each group holding the rows of that key in their input order.
\<close>

definition groupby_collection_route ::
    "('k::linorder) household list \<Rightarrow> ('k \<times> 'k household list) list" where
  "groupby_collection_route df =
     map (\<lambda>k. (k, filter (\<lambda>h. household.collection_route h = k) df))
       (sort (remdups (map household.collection_route df)))"

text \<open>The named aggregations of lines 27-34 on one group.\<close>

definition agg :: "'k \<times> 'k household list \<Rightarrow> 'k route_agg" where
  "agg kg =
     (let g = snd kg in
      \<lparr> collection_route = fst kg,
        total_households = length (map household_id g),
        total_population = sum_list (map population g),
        avg_waste_kg_per_day = mean (map waste_gen_kg_per_day g),
        avg_recycling_rate = mean (map recycling_rate g),
        avg_route_length_km = mean (map route_length_km g),
        avg_route_time_hr = mean (map route_time_hr g),
        total_distance_km = sum_list (map route_length_km g),
        total_time_hr = sum_list (map route_time_hr g) \<rparr>)"

text \<open>
  Lines 37-47 on one row: the three unit costs, the three costs, their sum along the
  row (\<^verbatim>\<open>.sum(axis=1)\<close>), the waste volume and the cost per kg.
\<close>

definition derive_columns :: "'k route_agg \<Rightarrow> 'k route_summary" where
  "derive_columns a =
     (let fc = 0.8;
          lc = 15;
          mc = 0.1;
          tf = total_distance_km a * fc;
          tl = total_time_hr a * lc;
          tm = total_distance_km a * mc;
          oc = sum_list [tf, tl, tm];
          tw = real (total_households a) * avg_waste_kg_per_day a
      in route_agg.extend a
           \<lparr> fuel_cost_per_km = fc,
             labor_cost_per_hour = lc,
             maintenance_cost_per_km = mc,
             total_fuel_cost = tf,
             total_labor_cost = tl,
             total_maintenance_cost = tm,
             total_operational_cost = oc,
             total_waste_kg_per_day = tw,
             cost_per_kg_waste = np_divide oc tw \<rparr>)"

definition summarize_routes :: "('k::linorder) household list \<Rightarrow> 'k route_summary list" where
  "summarize_routes df = map (\<lambda>kg. derive_columns (agg kg)) (groupby_collection_route df)"

section \<open>Scenario Simulator: \<open>simulate_scenario\<close>\<close>

text \<open>Lines 52-58 on one row of \<open>summary_df\<close>, one column assignment after the other.\<close>

definition simulate_row :: "real \<Rightarrow> real \<Rightarrow> 'k route_summary \<Rightarrow> 'k sim_row" where
  "simulate_row recycling_increase fuel_cost_multiplier r =
     (let nr = min (avg_recycling_rate r + recycling_increase) 1.0;
          aw = real (total_households r) * avg_waste_kg_per_day r * (1 - nr);
          sim = route_summary.extend r
                  \<lparr> new_recycling_rate = nr, adjusted_waste_kg_per_day = aw \<rparr>;
          sim = sim\<lparr> fuel_cost_per_km := 0.8 * fuel_cost_multiplier \<rparr>;
          sim = sim\<lparr> total_fuel_cost := total_distance_km sim * fuel_cost_per_km sim \<rparr>;
          sim = sim\<lparr> total_operational_cost :=
                       total_fuel_cost sim + total_labor_cost sim + total_maintenance_cost sim \<rparr>;
          sim = sim\<lparr> cost_per_kg_waste :=
                       np_divide (total_operational_cost sim) (adjusted_waste_kg_per_day sim) \<rparr>
      in sim)"

text \<open>The frame \<open>sim\<close> after line 58.\<close>

definition sim_frame :: "'k route_summary list \<Rightarrow> real \<Rightarrow> real \<Rightarrow> 'k sim_row list" where
  "sim_frame summary_df recycling_increase fuel_cost_multiplier =
     map (simulate_row recycling_increase fuel_cost_multiplier) summary_df"

text \<open>The column selection of line 59.\<close>

definition scenario_columns :: "'k sim_row \<Rightarrow> 'k scenario_result" where
  "scenario_columns s =
     \<lparr> scenario_result.collection_route = collection_route s,
       scenario_result.adjusted_waste_kg_per_day = adjusted_waste_kg_per_day s,
       scenario_result.new_recycling_rate = new_recycling_rate s,
       scenario_result.total_operational_cost = total_operational_cost s,
       scenario_result.cost_per_kg_waste = cost_per_kg_waste s \<rparr>"

definition simulate_scenario ::
    "'k route_summary list \<Rightarrow> real \<Rightarrow> real \<Rightarrow> 'k scenario_result list" where
  "simulate_scenario summary_df recycling_increase fuel_cost_multiplier =
     map scenario_columns (sim_frame summary_df recycling_increase fuel_cost_multiplier)"

section \<open>ROI Estimator: \<open>calculate_smart_bin_roi\<close>\<close>

definition roi_row_of :: "real \<Rightarrow> real \<Rightarrow> 'k route_summary \<Rightarrow> 'k roi_row" where
  "roi_row_of smart_bin_cost_per_route annual_savings_factor r =
     (let es = total_operational_cost r * annual_savings_factor
      in route_summary.extend r
           \<lparr> expected_annual_savings = es,
             roi_years = np_divide smart_bin_cost_per_route es \<rparr>)"

definition roi_columns :: "'k roi_row \<Rightarrow> 'k roi_result" where
  "roi_columns s =
     \<lparr> roi_result.collection_route = collection_route s,
       roi_result.total_operational_cost = total_operational_cost s,
       roi_result.expected_annual_savings = expected_annual_savings s,
       roi_result.roi_years = roi_years s \<rparr>"

definition calculate_smart_bin_roi ::
    "'k route_summary list \<Rightarrow> real \<Rightarrow> real \<Rightarrow> 'k roi_result list" where
  "calculate_smart_bin_roi summary_df smart_bin_cost_per_route annual_savings_factor =
     map (\<lambda>r. roi_columns (roi_row_of smart_bin_cost_per_route annual_savings_factor r))
       summary_df"

section \<open>Relations between tables and example tables\<close>

text \<open>Two Route Summary tables that agree in every cell outside \<open>fuel_cost_per_km\<close>.\<close>

definition equal_except_fuel_cost_per_km ::
    "'k route_summary list \<Rightarrow> 'k route_summary list \<Rightarrow> bool" where
  "equal_except_fuel_cost_per_km s1 s2 =
     (map (\<lambda>r. r\<lparr> fuel_cost_per_km := 0 \<rparr>) s1 = map (\<lambda>r. r\<lparr> fuel_cost_per_km := 0 \<rparr>) s2)"

text \<open>
  Route 12: two households with mean waste 5 kg/day, 10 km and 2 hours in total, the
  route of the specification's worked example.
\<close>

definition two_households :: "nat household list" where
  "two_households =
     [ \<lparr> household_id = 1, collection_route = 12, population = 3, waste_gen_kg_per_day = 4,
         recycling_rate = 0.2, route_length_km = 4, route_time_hr = 0.5 \<rparr>,
       \<lparr> household_id = 2, collection_route = 12, population = 2, waste_gen_kg_per_day = 6,
         recycling_rate = 0.4, route_length_km = 6, route_time_hr = 1.5 \<rparr> ]"

text \<open>Route 2: a household whose route has no length and takes no time.\<close>

definition idle_route :: "nat household list" where
  "idle_route =
     [ \<lparr> household_id = 3, collection_route = 2, population = 4, waste_gen_kg_per_day = 5,
         recycling_rate = 0.5, route_length_km = 0, route_time_hr = 0 \<rparr> ]"

text \<open>Route 3: a household that generates no waste.\<close>

definition no_waste_route :: "nat household list" where
  "no_waste_route =
     [ \<lparr> household_id = 4, collection_route = 3, population = 1, waste_gen_kg_per_day = 0,
         recycling_rate = 0.5, route_length_km = 10, route_time_hr = 2 \<rparr> ]"


text \<open>Route 50: a household whose route length is recorded as negative.\<close>

definition negative_length_route :: "nat household list" where
  "negative_length_route =
     [ \<lparr> household_id = 6, collection_route = 50, population = 2, waste_gen_kg_per_day = 5,
         recycling_rate = 0.5, route_length_km = - 10, route_time_hr = 0 \<rparr> ]"



section \<open>Field lemmas\<close>

lemma derive_columns_costs:
  "total_fuel_cost (derive_columns a) = total_distance_km a * 0.8"
  "total_labor_cost (derive_columns a) = total_time_hr a * 15"
  "total_maintenance_cost (derive_columns a) = total_distance_km a * 0.1"
  "total_operational_cost (derive_columns a) =
     total_distance_km a * 0.8 + total_time_hr a * 15 + total_distance_km a * 0.1"
  "total_waste_kg_per_day (derive_columns a) =
     real (total_households a) * avg_waste_kg_per_day a"
  by (simp_all add: derive_columns_def route_agg.defs Let_def)

lemma derive_columns_agg_fields:
  "collection_route (derive_columns a) = collection_route a"
  "total_households (derive_columns a) = total_households a"
  "avg_waste_kg_per_day (derive_columns a) = avg_waste_kg_per_day a"
  "avg_recycling_rate (derive_columns a) = avg_recycling_rate a"
  "total_distance_km (derive_columns a) = total_distance_km a"
  "total_time_hr (derive_columns a) = total_time_hr a"
  by (simp_all add: derive_columns_def route_agg.defs Let_def)

lemma derive_columns_cost_per_kg:
  "cost_per_kg_waste (derive_columns a) =
     np_divide (total_operational_cost (derive_columns a))
       (total_waste_kg_per_day (derive_columns a))"
  by (simp add: derive_columns_def route_agg.defs Let_def)

lemma simulate_row_fields:
  "new_recycling_rate (simulate_row ri fm r) = min (avg_recycling_rate r + ri) 1"
  "adjusted_waste_kg_per_day (simulate_row ri fm r) =
     real (total_households r) * avg_waste_kg_per_day r
       * (1 - min (avg_recycling_rate r + ri) 1)"
  "fuel_cost_per_km (simulate_row ri fm r) = 0.8 * fm"
  "total_fuel_cost (simulate_row ri fm r) = total_distance_km r * (0.8 * fm)"
  "total_labor_cost (simulate_row ri fm r) = total_labor_cost r"
  "total_maintenance_cost (simulate_row ri fm r) = total_maintenance_cost r"
  "total_operational_cost (simulate_row ri fm r) =
     total_distance_km r * (0.8 * fm) + total_labor_cost r + total_maintenance_cost r"
  "collection_route (simulate_row ri fm r) = collection_route r"
  by (simp_all add: simulate_row_def route_summary.defs Let_def)

lemma simulate_row_cost_per_kg:
  "cost_per_kg_waste (simulate_row ri fm r) =
     np_divide (total_operational_cost (simulate_row ri fm r))
       (adjusted_waste_kg_per_day (simulate_row ri fm r))"
  by (simp add: simulate_row_def route_summary.defs Let_def)

lemma scenario_columns_fields:
  "scenario_result.collection_route (scenario_columns s) = collection_route s"
  "scenario_result.adjusted_waste_kg_per_day (scenario_columns s) = adjusted_waste_kg_per_day s"
  "scenario_result.new_recycling_rate (scenario_columns s) = new_recycling_rate s"
  "scenario_result.total_operational_cost (scenario_columns s) = total_operational_cost s"
  "scenario_result.cost_per_kg_waste (scenario_columns s) = cost_per_kg_waste s"
  by (simp_all add: scenario_columns_def)

lemma simulate_scenario_rows:
  "simulate_scenario S ri fm = map (\<lambda>r. scenario_columns (simulate_row ri fm r)) S"
  by (simp add: simulate_scenario_def sim_frame_def)

lemma simulate_row_ignores_fuel_cost_per_km:
  "scenario_columns (simulate_row ri fm (r\<lparr> fuel_cost_per_km := x \<rparr>)) =
   scenario_columns (simulate_row ri fm r)"
  by (simp add: scenario_columns_def simulate_row_fields simulate_row_cost_per_kg)

lemma roi_years_row:
  "map roi_result.roi_years (calculate_smart_bin_roi S c f) =
     map (\<lambda>r. np_divide c (total_operational_cost r * f)) S"
  by (simp add: calculate_smart_bin_roi_def roi_columns_def roi_row_of_def
      route_summary.defs Let_def comp_def)

text \<open>A quotient with a positive dividend falls, weakly, as the divisor grows.\<close>

lemma np_divide_antitone:
  "0 < c \<Longrightarrow> 0 \<le> x \<Longrightarrow> x \<le> y \<Longrightarrow> fval_le (np_divide c y) (np_divide c x)"
  by (auto simp: np_divide_def intro: divide_left_mono)

lemma np_divide_antitone_neg:
  "0 < c \<Longrightarrow> x \<le> y \<Longrightarrow> y < 0 \<Longrightarrow> fval_le (np_divide c y) (np_divide c x)"
  by (auto simp: np_divide_def mult_pos_neg intro!: divide_left_mono mult_neg_neg)

section \<open>Keys of the aggregated table\<close>

lemma agg_key: "collection_route (agg kg) = fst kg"
  by (simp add: agg_def Let_def)

lemma summarize_routes_keys:
  "map collection_route (summarize_routes df) = sort (remdups (map household.collection_route df))"
  by (simp add: summarize_routes_def groupby_collection_route_def comp_def
      derive_columns_agg_fields agg_key)

section \<open>The example tables, aggregated\<close>

lemma two_households_groups: "groupby_collection_route two_households = [(12, two_households)]"
  by (simp add: groupby_collection_route_def two_households_def)

lemma two_households_agg:
  "agg (12, two_households) =
     \<lparr> collection_route = 12, total_households = 2, total_population = 5,
       avg_waste_kg_per_day = 5, avg_recycling_rate = 0.3, avg_route_length_km = 5,
       avg_route_time_hr = 1, total_distance_km = 10, total_time_hr = 2 \<rparr>"
  by (simp add: agg_def two_households_def mean_def Let_def)

lemma two_households_summary:
  "summarize_routes two_households = [derive_columns (agg (12, two_households))]"
  by (simp add: summarize_routes_def two_households_groups)

lemma idle_route_summary:
  "summarize_routes idle_route = [derive_columns (agg (2, idle_route))]"
  by (simp add: summarize_routes_def groupby_collection_route_def idle_route_def)

lemma idle_route_agg:
  "agg (2, idle_route) =
     \<lparr> collection_route = 2, total_households = 1, total_population = 4,
       avg_waste_kg_per_day = 5, avg_recycling_rate = 0.5, avg_route_length_km = 0,
       avg_route_time_hr = 0, total_distance_km = 0, total_time_hr = 0 \<rparr>"
  by (simp add: agg_def idle_route_def mean_def Let_def)





lemma negative_length_route_summary:
  "summarize_routes negative_length_route = [derive_columns (agg (50, negative_length_route))]"
  by (simp add: summarize_routes_def groupby_collection_route_def negative_length_route_def)

lemma negative_length_route_agg:
  "agg (50, negative_length_route) =
     \<lparr> collection_route = 50, total_households = 1, total_population = 2,
       avg_waste_kg_per_day = 5, avg_recycling_rate = 0.5, avg_route_length_km = - 10,
       avg_route_time_hr = 0, total_distance_km = - 10, total_time_hr = 0 \<rparr>"
  by (simp add: agg_def negative_length_route_def mean_def Let_def)





text \<open>Three routes in one table, out of key order: one row per route, in key order.\<close>

lemma mixed_table_routes:
  "map collection_route (summarize_routes (no_waste_route @ two_households @ idle_route)) =
     [2, 3, 12]
   \<and> map total_households (summarize_routes (no_waste_route @ two_households @ idle_route)) =
     [1, 1, 2]"
  by (simp add: summarize_routes_def groupby_collection_route_def comp_def
      derive_columns_agg_fields agg_def no_waste_route_def two_households_def idle_route_def)

section \<open>The operational cost is the sum of its three parts\<close>

text \<open>
  C1. On every row of the table that \<open>summarize_routes\<close> returns, and on every row of
  the frame that \<open>simulate_scenario\<close> recomputes, \<open>total_operational_cost\<close> is
  \<open>total_fuel_cost + total_labor_cost + total_maintenance_cost\<close>; the simulator returns
  that recomputed column.
\<close>

theorem operational_cost_is_sum:
  "map total_operational_cost (summarize_routes df) =
     map (\<lambda>r. total_fuel_cost r + total_labor_cost r + total_maintenance_cost r)
       (summarize_routes df)
   \<and> map total_operational_cost (sim_frame summary_df ri fm) =
     map (\<lambda>s. total_fuel_cost s + total_labor_cost s + total_maintenance_cost s)
       (sim_frame summary_df ri fm)
   \<and> map scenario_result.total_operational_cost (simulate_scenario summary_df ri fm) =
     map total_operational_cost (sim_frame summary_df ri fm)"
  by (simp add: summarize_routes_def sim_frame_def simulate_scenario_def scenario_columns_def
      derive_columns_costs simulate_row_fields comp_def)

section \<open>The new recycling rate is capped at 1\<close>

text \<open>
  C2. On every row of the Route Summary the simulator's \<open>new_recycling_rate\<close> is
  \<open>min (avg_recycling_rate + r) 1.0\<close>, for every recycling increase \<open>r\<close> (so for every
  \<open>r \<ge> 0\<close>); with \<open>r = 1.0\<close> and a base rate above 0 it is exactly 1.0.
\<close>

theorem new_recycling_rate_capped:
  "map scenario_result.new_recycling_rate (simulate_scenario summary_df r fm) =
     map (\<lambda>row. min (avg_recycling_rate row + r) 1.0) summary_df
   \<and> (0 < avg_recycling_rate row \<longrightarrow>
        map scenario_result.new_recycling_rate (simulate_scenario [row] 1.0 fm) = [1.0])"
  by (simp add: simulate_scenario_rows scenario_columns_fields simulate_row_fields comp_def)

theorem new_recycling_rate_capped_witness:
  "0 < avg_recycling_rate (derive_columns (agg (12, two_households)))
   \<and> map scenario_result.new_recycling_rate
        (simulate_scenario (summarize_routes two_households) 1.0 1.0) = [1.0]"
proof -
  have h: "0 < avg_recycling_rate (derive_columns (agg (12, two_households)))"
    by (simp add: derive_columns_agg_fields two_households_agg)
  with new_recycling_rate_capped
         [of "summarize_routes two_households" 1 1 "derive_columns (agg (12, two_households))"]
  show ?thesis
    by (simp add: two_households_summary)
qed

section \<open>The default scenario reproduces the operational cost\<close>

text \<open>
  C3. For the Route Summary of any input table, the simulator run with
  \<open>recycling_increase = 0.0\<close> and \<open>fuel_cost_multiplier = 1.0\<close> returns, row by row, the
  \<open>total_operational_cost\<close> of the Route Summary.
\<close>

theorem default_scenario_reproduces_operational_cost:
  "map scenario_result.total_operational_cost
     (simulate_scenario (summarize_routes df) 0.0 1.0) =
   map total_operational_cost (summarize_routes df)"
  by (simp add: simulate_scenario_rows summarize_routes_def scenario_columns_fields
      simulate_row_fields comp_def derive_columns_costs derive_columns_agg_fields)

section \<open>One row per route\<close>

text \<open>
  C4. The table returned by \<open>summarize_routes\<close> has exactly one row per distinct route
  identifier of the input: its keys are pairwise distinct, they are the route
  identifiers that occur in the input, and there are as many rows as distinct
  identifiers. The empty table is aggregated to the empty table; the function has no
  failing branch.
\<close>

theorem one_row_per_route:
  "distinct (map collection_route (summarize_routes df))
   \<and> set (map collection_route (summarize_routes df)) = set (map household.collection_route df)
   \<and> length (summarize_routes df) = card (set (map household.collection_route df))
   \<and> summarize_routes ([] :: ('k::linorder) household list) = []"
proof -
  have len: "length (summarize_routes df) = length (map collection_route (summarize_routes df))"
    by simp
  have "length (summarize_routes df) = card (set (map household.collection_route df))"
    unfolding len summarize_routes_keys by (simp add: length_remdups_card_conv)
  moreover have "summarize_routes ([] :: 'k household list) = []"
    by (simp add: summarize_routes_def groupby_collection_route_def)
  ultimately show ?thesis
    by (simp add: summarize_routes_keys)
qed

section \<open>The worked example\<close>

text \<open>
  C5. A route row with 2 households, mean waste 5 kg/day, 10 km and 2 hours gets
  \<open>total_waste_kg_per_day = 10\<close>, \<open>total_fuel_cost = 8.0\<close>, \<open>total_labor_cost = 30.0\<close>,
  \<open>total_maintenance_cost = 1.0\<close>, \<open>total_operational_cost = 39.0\<close> and
  \<open>cost_per_kg_waste = 3.9\<close>.
\<close>

theorem spec_example_row:
  "total_households a = 2 \<Longrightarrow> avg_waste_kg_per_day a = 5 \<Longrightarrow>
   total_distance_km a = 10 \<Longrightarrow> total_time_hr a = 2 \<Longrightarrow>
   total_waste_kg_per_day (derive_columns a) = 10
   \<and> total_fuel_cost (derive_columns a) = 8.0
   \<and> total_labor_cost (derive_columns a) = 30.0
   \<and> total_maintenance_cost (derive_columns a) = 1.0
   \<and> total_operational_cost (derive_columns a) = 39.0
   \<and> cost_per_kg_waste (derive_columns a) = Finite 3.9"
  by (simp add: derive_columns_costs derive_columns_cost_per_kg np_divide_def)

theorem spec_example_row_witness:
  "total_households (agg (12, two_households)) = 2
   \<and> avg_waste_kg_per_day (agg (12, two_households)) = 5
   \<and> total_distance_km (agg (12, two_households)) = 10
   \<and> total_time_hr (agg (12, two_households)) = 2
   \<and> map total_waste_kg_per_day (summarize_routes two_households) = [10]
   \<and> map total_fuel_cost (summarize_routes two_households) = [8.0]
   \<and> map total_labor_cost (summarize_routes two_households) = [30.0]
   \<and> map total_maintenance_cost (summarize_routes two_households) = [1.0]
   \<and> map total_operational_cost (summarize_routes two_households) = [39.0]
   \<and> map cost_per_kg_waste (summarize_routes two_households) = [Finite 3.9]"
proof -
  have h: "total_households (agg (12, two_households)) = 2"
    "avg_waste_kg_per_day (agg (12, two_households)) = 5"
    "total_distance_km (agg (12, two_households)) = 10"
    "total_time_hr (agg (12, two_households)) = 2"
    by (simp_all add: two_households_agg)
  from spec_example_row [OF h] h show ?thesis
    by (simp add: two_households_summary)
qed

section \<open>Payback period and savings factor\<close>

text \<open>
  C6, as stated for all factors \<open>f1 < f2\<close>, does not hold. On a route without
  operational cost both payback periods are the same infinity, so the period is not
  strictly smaller. It is not even smaller or equal when the factors are a negative
  and a positive one, or a negative one and 0, when the bin cost and the operational
  cost are both 0 (the quotient is \<^verbatim>\<open>nan\<close>), when the bin cost is negative, or when
  the operational cost is negative.
\<close>

theorem roi_years_not_decreasing_counterexample:
  "(0.15::real) < 0.3
   \<and> \<not> list_all2 fval_less
        (map roi_result.roi_years (calculate_smart_bin_roi (summarize_routes idle_route) 2000 0.3))
        (map roi_result.roi_years (calculate_smart_bin_roi (summarize_routes idle_route) 2000 0.15))
   \<and> (- 0.15::real) < 0.15
   \<and> \<not> list_all2 fval_le
        (map roi_result.roi_years
          (calculate_smart_bin_roi (summarize_routes two_households) 2000 0.15))
        (map roi_result.roi_years
          (calculate_smart_bin_roi (summarize_routes two_households) 2000 (- 0.15)))
   \<and> (- 0.15::real) < 0
   \<and> \<not> list_all2 fval_le
        (map roi_result.roi_years
          (calculate_smart_bin_roi (summarize_routes two_households) 2000 0))
        (map roi_result.roi_years
          (calculate_smart_bin_roi (summarize_routes two_households) 2000 (- 0.15)))
   \<and> \<not> list_all2 fval_le
        (map roi_result.roi_years (calculate_smart_bin_roi (summarize_routes idle_route) 0 0.3))
        (map roi_result.roi_years (calculate_smart_bin_roi (summarize_routes idle_route) 0 0.15))
   \<and> \<not> list_all2 fval_le
        (map roi_result.roi_years
          (calculate_smart_bin_roi (summarize_routes two_households) (- 2000) 0.3))
        (map roi_result.roi_years
          (calculate_smart_bin_roi (summarize_routes two_households) (- 2000) 0.15))
   \<and> \<not> list_all2 fval_le
        (map roi_result.roi_years
          (calculate_smart_bin_roi (summarize_routes negative_length_route) 2000 0.3))
        (map roi_result.roi_years
          (calculate_smart_bin_roi (summarize_routes negative_length_route) 2000 0.15))"
  by (simp add: roi_years_row idle_route_summary two_households_summary
      negative_length_route_summary derive_columns_costs idle_route_agg two_households_agg
      negative_length_route_agg np_divide_def)

text \<open>
  C6, amended. With a positive bin cost, an operational cost that is not negative on
  any row, and factors \<open>f1 < f2\<close> that are both positive or both negative, \<open>roi_years\<close>
  at \<open>f2\<close> is smaller than or equal to \<open>roi_years\<close> at \<open>f1\<close> on every row, the
  operational cost being the same in both results. Equality occurs (the route
  without operational cost), so the decrease is weak. A factor of 0 is left out: the
  program then divides by a zero product, and the sign of a float zero, which a real
  number does not have, decides between the two infinities.
\<close>

theorem roi_years_weakly_decreasing:
  "0 < c \<Longrightarrow> f1 < f2 \<Longrightarrow> 0 < f1 \<or> f2 < 0 \<Longrightarrow>
   list_all (\<lambda>r. 0 \<le> total_operational_cost r) S \<Longrightarrow>
   list_all2 fval_le
     (map roi_result.roi_years (calculate_smart_bin_roi S c f2))
     (map roi_result.roi_years (calculate_smart_bin_roi S c f1))
   \<and> map roi_result.total_operational_cost (calculate_smart_bin_roi S c f2) =
     map roi_result.total_operational_cost (calculate_smart_bin_roi S c f1)"
proof -
  assume c: "0 < c" and f: "f1 < f2" and sign: "0 < f1 \<or> f2 < 0"
    and costs: "list_all (\<lambda>r. 0 \<le> total_operational_cost r) S"
  have row: "fval_le (np_divide c (x * f2)) (np_divide c (x * f1))" if "0 \<le> x" for x :: real
  proof (cases "0 < f1")
    case True
    with that f have "0 \<le> x * f1" "x * f1 \<le> x * f2"
      by (simp_all add: mult_left_mono)
    with c show ?thesis by (rule np_divide_antitone)
  next
    case False
    with sign have neg: "f2 < 0" by simp
    show ?thesis
    proof (cases "x = 0")
      case True
      with c show ?thesis by (simp add: np_divide_def)
    next
      case False
      with that have "0 < x" by simp
      with f neg have "x * f1 \<le> x * f2" "x * f2 < 0"
        by (simp_all add: mult_pos_neg)
      with c show ?thesis by (rule np_divide_antitone_neg)
    qed
  qed
  from costs have "list_all2 fval_le
     (map (\<lambda>r. np_divide c (total_operational_cost r * f2)) S)
     (map (\<lambda>r. np_divide c (total_operational_cost r * f1)) S)"
    by (induction S) (simp_all add: row)
  moreover have "map roi_result.total_operational_cost (calculate_smart_bin_roi S c f2) =
     map roi_result.total_operational_cost (calculate_smart_bin_roi S c f1)"
    by (simp add: calculate_smart_bin_roi_def roi_columns_def roi_row_of_def
        route_summary.defs Let_def)
  ultimately show ?thesis
    by (simp add: roi_years_row)
qed

theorem roi_years_weakly_decreasing_witness:
  "(0::real) < 2000 \<and> (0.15::real) < 0.3 \<and> (0::real) < 0.15
   \<and> list_all (\<lambda>r. 0 \<le> total_operational_cost r) (summarize_routes two_households)
   \<and> list_all (\<lambda>r. 0 \<le> total_operational_cost r) (summarize_routes idle_route)
   \<and> list_all2 fval_le
        (map roi_result.roi_years
          (calculate_smart_bin_roi (summarize_routes two_households) 2000 0.3))
        (map roi_result.roi_years
          (calculate_smart_bin_roi (summarize_routes two_households) 2000 0.15))
   \<and> list_all2 fval_le
        (map roi_result.roi_years (calculate_smart_bin_roi (summarize_routes idle_route) 2000 0.3))
        (map roi_result.roi_years (calculate_smart_bin_roi (summarize_routes idle_route) 2000 0.15))
   \<and> (- 0.3::real) < - 0.15 \<and> (- 0.15::real) < 0
   \<and> list_all2 fval_le
        (map roi_result.roi_years
          (calculate_smart_bin_roi (summarize_routes two_households) 2000 (- 0.15)))
        (map roi_result.roi_years
          (calculate_smart_bin_roi (summarize_routes two_households) 2000 (- 0.3)))"
proof -
  have h: "list_all (\<lambda>r. 0 \<le> total_operational_cost r) (summarize_routes two_households)"
    and i: "list_all (\<lambda>r. 0 \<le> total_operational_cost r) (summarize_routes idle_route)"
    by (simp_all add: two_households_summary idle_route_summary derive_columns_costs
        two_households_agg idle_route_agg)
  have c: "(0::real) < 2000" and f: "(0.15::real) < 0.3" and p: "0 < (0.15::real) \<or> (0.3::real) < 0"
    and g: "(- 0.3::real) < - 0.15" and n: "0 < (- 0.3::real) \<or> (- 0.15::real) < 0"
    by simp_all
  from roi_years_weakly_decreasing [OF c f p h] roi_years_weakly_decreasing [OF c f p i]
    roi_years_weakly_decreasing [OF c g n h] h i
  show ?thesis by simp
qed

section \<open>Division by a zero waste volume\<close>

text \<open>
  C7. The simulator's \<open>cost_per_kg_waste\<close> is the quotient of \<open>total_operational_cost\<close>
  by \<open>adjusted_waste_kg_per_day\<close> on every row, with no test of the divisor; on a row
  whose adjusted waste is zero the quotient is not a finite number, and the function
  still returns its table.
\<close>

theorem zero_waste_division_unguarded:
  "map scenario_result.cost_per_kg_waste (simulate_scenario S ri fm) =
     map (\<lambda>s. np_divide (scenario_result.total_operational_cost s)
                 (scenario_result.adjusted_waste_kg_per_day s))
       (simulate_scenario S ri fm)
   \<and> list_all (\<lambda>s. scenario_result.adjusted_waste_kg_per_day s = 0 \<longrightarrow>
                   \<not> is_finite (scenario_result.cost_per_kg_waste s))
       (simulate_scenario S ri fm)"
proof -
  have "\<not> is_finite (np_divide a 0)" for a
    by (simp add: np_divide_def)
  then show ?thesis
    by (simp add: simulate_scenario_rows scenario_columns_fields simulate_row_cost_per_kg
        comp_def list_all_iff)
qed

theorem zero_waste_division_unguarded_witness:
  "map scenario_result.adjusted_waste_kg_per_day
     (simulate_scenario (summarize_routes two_households) 1 1) = [0]
   \<and> list_all (\<lambda>s. \<not> is_finite (scenario_result.cost_per_kg_waste s))
       (simulate_scenario (summarize_routes two_households) 1 1)
   \<and> map scenario_result.cost_per_kg_waste
     (simulate_scenario (summarize_routes two_households) 1 1) = [PosInf]"
proof -
  let ?out = "simulate_scenario (summarize_routes two_households) 1 1"
  have adj: "map scenario_result.adjusted_waste_kg_per_day ?out = [0]"
    and oc: "map scenario_result.total_operational_cost ?out = [39]"
    by (simp_all add: simulate_scenario_rows scenario_columns_fields simulate_row_fields
        two_households_summary derive_columns_agg_fields derive_columns_costs two_households_agg)
  from zero_waste_division_unguarded [of "summarize_routes two_households" 1 1]
  have quot: "map scenario_result.cost_per_kg_waste ?out =
     map (\<lambda>s. np_divide (scenario_result.total_operational_cost s)
                 (scenario_result.adjusted_waste_kg_per_day s)) ?out"
    and guard: "list_all (\<lambda>s. scenario_result.adjusted_waste_kg_per_day s = 0 \<longrightarrow>
                   \<not> is_finite (scenario_result.cost_per_kg_waste s)) ?out"
    by simp_all
  from adj guard have "list_all (\<lambda>s. \<not> is_finite (scenario_result.cost_per_kg_waste s)) ?out"
    by (auto simp: map_eq_Cons_conv)
  moreover from adj oc quot have "map scenario_result.cost_per_kg_waste ?out = [PosInf]"
    by (auto simp: map_eq_Cons_conv np_divide_def)
  ultimately show ?thesis
    using adj by simp
qed

section \<open>The input's fuel cost per km is not read\<close>

text \<open>
  C8. Two Route Summary tables that are equal except in their \<open>fuel_cost_per_km\<close>
  cells give the same result of \<open>simulate_scenario\<close> for the same recycling increase
  and fuel cost multiplier: the simulator overwrites the column with the constant 0.8
  times the multiplier.
\<close>

theorem scenario_independent_of_fuel_cost_per_km:
  "equal_except_fuel_cost_per_km s1 s2 \<Longrightarrow>
   simulate_scenario s1 ri fm = simulate_scenario s2 ri fm
   \<and> map fuel_cost_per_km (sim_frame s1 ri fm) = map (\<lambda>r. 0.8 * fm) s1"
proof -
  assume eq: "equal_except_fuel_cost_per_km s1 s2"
  let ?f = "\<lambda>r. scenario_columns (simulate_row ri fm r)"
  let ?g = "\<lambda>r :: 'a route_summary. r\<lparr> fuel_cost_per_km := 0 \<rparr>"
  have reset: "simulate_scenario s ri fm = map ?f (map ?g s)" for s
    by (simp add: simulate_scenario_rows comp_def simulate_row_ignores_fuel_cost_per_km)
  from eq have same: "map ?g s1 = map ?g s2"
    by (simp add: equal_except_fuel_cost_per_km_def)
  have "simulate_scenario s1 ri fm = map ?f (map ?g s1)"
    by (rule reset)
  also have "\<dots> = map ?f (map ?g s2)"
    by (simp only: same)
  also have "\<dots> = simulate_scenario s2 ri fm"
    by (rule reset [symmetric])
  finally show ?thesis
    by (simp add: sim_frame_def comp_def simulate_row_fields)
qed

theorem scenario_independent_of_fuel_cost_per_km_witness:
  "equal_except_fuel_cost_per_km (summarize_routes two_households)
     (map (\<lambda>r. r\<lparr> fuel_cost_per_km := 5 \<rparr>) (summarize_routes two_households))
   \<and> map fuel_cost_per_km (summarize_routes two_households) = [0.8]
   \<and> map fuel_cost_per_km
        (map (\<lambda>r. r\<lparr> fuel_cost_per_km := 5 \<rparr>) (summarize_routes two_households)) = [5]
   \<and> simulate_scenario (summarize_routes two_households) 0.2 2 =
     simulate_scenario
       (map (\<lambda>r. r\<lparr> fuel_cost_per_km := 5 \<rparr>) (summarize_routes two_households)) 0.2 2"
proof -
  have h: "equal_except_fuel_cost_per_km (summarize_routes two_households)
     (map (\<lambda>r. r\<lparr> fuel_cost_per_km := 5 \<rparr>) (summarize_routes two_households))"
    by (simp add: equal_except_fuel_cost_per_km_def comp_def)
  have "map fuel_cost_per_km (summarize_routes two_households) = [0.8]"
    by (simp add: two_households_summary derive_columns_def route_agg.defs Let_def)
  with scenario_independent_of_fuel_cost_per_km [OF h, of "0.2" 2] h show ?thesis
    by (simp add: comp_def two_households_summary)
qed

section \<open>No lower bound on the new recycling rate\<close>

text \<open>
  C9. For every recycling increase, negative ones included, the simulator's
  \<open>new_recycling_rate\<close> is \<open>min (avg_recycling_rate + recycling_increase) 1.0\<close>, with no
  lower bound: an increase below \<open>- avg_recycling_rate\<close> gives a negative rate and, on a
  route with a positive waste volume, an \<open>adjusted_waste_kg_per_day\<close> above
  \<open>total_households * avg_waste_kg_per_day\<close>. Route 12 with an increase of -0.5 is such
  an input.
\<close>

theorem new_recycling_rate_has_no_lower_bound:
  "scenario_result.new_recycling_rate (scenario_columns (simulate_row ri fm r)) =
     min (avg_recycling_rate r + ri) 1.0
   \<and> (ri < - avg_recycling_rate r \<longrightarrow>
        scenario_result.new_recycling_rate (scenario_columns (simulate_row ri fm r)) < 0)
   \<and> (ri < - avg_recycling_rate r \<and> 0 < real (total_households r) * avg_waste_kg_per_day r \<longrightarrow>
        real (total_households r) * avg_waste_kg_per_day r
          < scenario_result.adjusted_waste_kg_per_day (scenario_columns (simulate_row ri fm r)))"
proof -
  let ?w = "real (total_households r) * avg_waste_kg_per_day r"
  let ?m = "min (avg_recycling_rate r + ri) 1"
  have neg: "?m < 0" if "ri < - avg_recycling_rate r"
    using that by simp
  have more: "?w < ?w * (1 - ?m)" if "ri < - avg_recycling_rate r" "0 < ?w"
  proof -
    from neg that have "?w * 1 < ?w * (1 - ?m)"
      by (intro mult_strict_left_mono) simp_all
    then show ?thesis by simp
  qed
  from neg more show ?thesis
    by (simp add: scenario_columns_fields simulate_row_fields)
qed

theorem new_recycling_rate_has_no_lower_bound_witness:
  "(- 0.5::real) < - avg_recycling_rate (derive_columns (agg (12, two_households)))
   \<and> 0 < real (total_households (derive_columns (agg (12, two_households))))
           * avg_waste_kg_per_day (derive_columns (agg (12, two_households)))
   \<and> map scenario_result.new_recycling_rate
        (simulate_scenario (summarize_routes two_households) (- 0.5) 1) = [- 0.2]
   \<and> map scenario_result.adjusted_waste_kg_per_day
        (simulate_scenario (summarize_routes two_households) (- 0.5) 1) = [12]
   \<and> scenario_result.new_recycling_rate
        (scenario_columns (simulate_row (- 0.5) 1 (derive_columns (agg (12, two_households))))) < 0
   \<and> real (total_households (derive_columns (agg (12, two_households))))
        * avg_waste_kg_per_day (derive_columns (agg (12, two_households)))
      < scenario_result.adjusted_waste_kg_per_day
          (scenario_columns (simulate_row (- 0.5) 1 (derive_columns (agg (12, two_households)))))"
proof -
  have h: "(- 0.5::real) < - avg_recycling_rate (derive_columns (agg (12, two_households)))"
    "0 < real (total_households (derive_columns (agg (12, two_households))))
           * avg_waste_kg_per_day (derive_columns (agg (12, two_households)))"
    by (simp_all add: derive_columns_agg_fields two_households_agg)
  have v: "map scenario_result.new_recycling_rate
        (simulate_scenario (summarize_routes two_households) (- 0.5) 1) = [- 0.2]"
    "map scenario_result.adjusted_waste_kg_per_day
        (simulate_scenario (summarize_routes two_households) (- 0.5) 1) = [12]"
    by (simp_all add: simulate_scenario_rows scenario_columns_fields simulate_row_fields
        two_households_summary derive_columns_agg_fields two_households_agg)
  from new_recycling_rate_has_no_lower_bound
         [of "- 0.5" 1 "derive_columns (agg (12, two_households))"] h v
  show ?thesis by simp
qed

section \<open>Cost per kg at the default scenario\<close>




end
